theory Spec2Isabelle
  imports Complex_Main "HOL-Library.Char_ord" "HOL-Library.List_Lexorder"
begin

section \<open>Tables\<close>

text \<open>
  The dashboard script \<^verbatim>\<open>app.py\<close> reads two CSV files into pandas DataFrames and derives
  every view from them. A DataFrame is modelled as a header (the column names, in order)
  and a list of rows. A row has one typed field for every column the script reads by name;
  the header says which of these columns the table really has, and every read of a column
  goes through the header (\<open>getitem\<close> below), so a field whose column is absent is never
  looked at. Numeric cells are exact rationals, a missing cell (NaN) is \<open>None\<close>;
  only \<open>cluster\<close> (after the join) and \<open>size_bin\<close> can be missing.
\<close>

record row =
  account :: string
  side :: string
  size_usd :: rat
  closed_pnl :: rat
  win :: bool
  classification :: string
  cluster :: "int option"
  total_trades :: rat
  win_rate :: rat
  total_pnl :: rat
  size_bin :: "(rat \<times> rat) option"

record frame =
  columns :: "string list"
  rows :: "row list"

datatype error = FileNotFoundError string | KeyError string | ValueError string

text \<open>
  The files on disk: a path is mapped to the table \<^verbatim>\<open>pd.read_csv\<close> parses from it, or to
  \<open>None\<close> when the file is missing or cannot be read.
\<close>

type_synonym filesystem = "string \<Rightarrow> frame option"

definition read_csv :: "filesystem \<Rightarrow> string \<Rightarrow> error + frame" where
  "read_csv fs path = (case fs path of None \<Rightarrow> Inl (FileNotFoundError path) | Some df \<Rightarrow> Inr df)"

text \<open>\<^verbatim>\<open>df[c]\<close>: the column named \<open>c\<close>, read through the field \<open>f\<close>; KeyError when the
  table has no such column.\<close>

definition getitem :: "frame \<Rightarrow> string \<Rightarrow> (row \<Rightarrow> 'a) \<Rightarrow> error + 'a list" where
  "getitem df c f = (if c \<in> set (columns df) then Inr (map f (rows df)) else Inl (KeyError c))"

text \<open>\<^verbatim>\<open>df[[c1, c2, ...]]\<close>: the sub-table of the named columns; KeyError at the first
  name the table does not have.\<close>

definition getitem_cols :: "frame \<Rightarrow> string list \<Rightarrow> error + frame" where
  "getitem_cols df cs =
     (case filter (\<lambda>c. c \<notin> set (columns df)) cs of
        [] \<Rightarrow> Inr \<lparr>columns = cs, rows = rows df\<rparr>
      | c # _ \<Rightarrow> Inl (KeyError c))"

section \<open>Data loader\<close>

text \<open>
  \<^verbatim>\<open>left.merge(right, on='account', how='left')\<close> for a right table of the two columns
  \<open>account\<close> and \<open>cluster\<close>. Every left row is kept, in order: once for each right row of
  the same account, carrying that row's cluster, or once with a missing cluster when no
  right row has the account. When the left table has a \<open>cluster\<close> column of its own, pandas
  renames it \<open>cluster_x\<close> and names the joined one \<open>cluster_y\<close>, so the result has no column
  called \<open>cluster\<close>.
\<close>

definition merge_rows :: "bool \<Rightarrow> row list \<Rightarrow> row \<Rightarrow> row list" where
  "merge_rows overlap rs l =
     (let upd = (\<lambda>v. if overlap then l else l\<lparr>cluster := v\<rparr>) in
      case filter (\<lambda>r. account r = account l) rs of
        [] \<Rightarrow> [upd None]
      | ms \<Rightarrow> map (\<lambda>r. upd (cluster r)) ms)"

definition merge_left :: "frame \<Rightarrow> frame \<Rightarrow> error + frame" where
  "merge_left left right =
     (if ''account'' \<notin> set (columns left) \<or> ''account'' \<notin> set (columns right)
      then Inl (KeyError ''account'')
      else
        let overlap = (''cluster'' \<in> set (columns left)) in
        Inr \<lparr>columns =
               (if overlap
                then map (\<lambda>c. if c = ''cluster'' then ''cluster_x'' else c) (columns left)
                     @ [''cluster_y'']
                else columns left @ [''cluster'']),
             rows = concat (map (merge_rows overlap (rows right)) (rows left))\<rparr>)"

text \<open>
  \<^verbatim>\<open>load_data\<close> (app.py, lines 24-29).
\<close>

definition load_data :: "filesystem \<Rightarrow> error + (frame \<times> frame)" where
  "load_data fs =
     (case read_csv fs ''final_merged_dataset.csv'' of
        Inl e \<Rightarrow> Inl e
      | Inr merged \<Rightarrow>
     (case read_csv fs ''trader_clusters.csv'' of
        Inl e \<Rightarrow> Inl e
      | Inr trader_features \<Rightarrow>
     (case getitem_cols trader_features [''account'', ''cluster''] of
        Inl e \<Rightarrow> Inl e
      | Inr sel \<Rightarrow>
     (case merge_left merged sel of
        Inl e \<Rightarrow> Inl e
      | Inr merged' \<Rightarrow> Inr (merged', trader_features)))))"

section \<open>pandas operations used by the aggregation pipeline\<close>

definition bind :: "error + 'a \<Rightarrow> ('a \<Rightarrow> error + 'b) \<Rightarrow> error + 'b" where
  "bind m f = (case m of Inl e \<Rightarrow> Inl e | Inr x \<Rightarrow> f x)"

text \<open>\<^verbatim>\<open>Series.unique()\<close>: the distinct values in order of first appearance.\<close>

definition unique :: "'a list \<Rightarrow> 'a list" where
  "unique xs = rev (remdups (rev xs))"

text \<open>\<^verbatim>\<open>Series.isin(values)\<close>: the boolean mask of the cells found among the values.\<close>

definition isin :: "'a list \<Rightarrow> 'a list \<Rightarrow> bool list" where
  "isin col vals = map (\<lambda>x. x \<in> set vals) col"

text \<open>\<^verbatim>\<open>df[mask]\<close>: boolean indexing returns a new table (a copy) holding the rows whose
  mask is True, in order.\<close>

definition getitem_mask :: "frame \<Rightarrow> bool list \<Rightarrow> frame" where
  "getitem_mask df msk = \<lparr>columns = columns df, rows = map fst (filter snd (zip (rows df) msk))\<rparr>"

text \<open>\<^verbatim>\<open>Series.mean()\<close>: NaN (\<open>None\<close>) on an empty series. A boolean column is averaged
  with True as 1 and False as 0.\<close>

definition mean :: "rat list \<Rightarrow> rat option" where
  "mean xs = (if xs = [] then None else Some (sum_list xs / of_nat (length xs)))"

definition times100 :: "rat option \<Rightarrow> rat option" where
  "times100 v = map_option (\<lambda>x. x * 100) v"

definition win_mean :: "row list \<Rightarrow> rat option" where
  "win_mean rs = mean (map (\<lambda>r. of_bool (win r)) rs)"

text \<open>\<^verbatim>\<open>df.groupby(key)\<close>: one group per distinct key, the keys sorted ascending, rows
  with a missing key dropped, the rows of a group in table order.\<close>

definition groupby :: "(row \<Rightarrow> 'k::linorder option) \<Rightarrow> row list \<Rightarrow> ('k \<times> row list) list" where
  "groupby key rs =
     map (\<lambda>k. (k, filter (\<lambda>r. key r = Some k) rs)) (sort (remdups (List.map_filter key rs)))"

definition groupby_win_rate :: "(row \<Rightarrow> 'k::linorder option) \<Rightarrow> row list \<Rightarrow> ('k \<times> rat option) list" where
  "groupby_win_rate key rs = map (\<lambda>(k, g). (k, times100 (win_mean g))) (groupby key rs)"

subsection \<open>Quantile bins\<close>

text \<open>
  \<^verbatim>\<open>Series.quantile(k / q)\<close> with linear interpolation, on a non-empty series of \<open>n\<close>
  values: the virtual index \<open>(n - 1) * k / q\<close> is split into its integer part \<open>i\<close> and its
  fraction \<open>t\<close>, and the result lies the fraction \<open>t\<close> of the way from the \<open>i\<close>-th to the
  next sorted value.
\<close>

definition quantile :: "rat list \<Rightarrow> nat \<Rightarrow> nat \<Rightarrow> rat" where
  "quantile xs k q =
     (let s = sort xs;
          p = (length xs - 1) * k;
          i = p div q;
          t = of_nat (p mod q) / of_nat q
      in if i + 1 < length s then s ! i + (s ! (i + 1) - s ! i) * t else s ! i)"

datatype duplicates = Raise | Drop

text \<open>\<^verbatim>\<open>bins.searchsorted(x, side='left')\<close> on ascending bin edges: the number of edges
  before the first one that is not below \<open>x\<close>.\<close>

definition searchsorted_left :: "rat list \<Rightarrow> rat \<Rightarrow> nat" where
  "searchsorted_left bins x = length (takeWhile (\<lambda>b. b < x) bins)"

text \<open>
  pandas' \<^verbatim>\<open>_bins_to_cuts(x, bins, right=True, include_lowest=True, duplicates=...)\<close>.
  Repeated edges raise or are dropped. A bin is the interval \<open>(lo, hi]\<close> between two
  neighbouring edges, written as the pair \<open>(lo, hi)\<close>; the first bin also holds the lowest
  edge itself. The number of a value is its insertion point among the edges (1 for the
  lowest edge); the value gets the bin of that number, and no bin (NaN) when the number is
  0 or the number of edges.
\<close>

definition bin_number :: "rat list \<Rightarrow> rat \<Rightarrow> nat" where
  "bin_number bins v = (if v = hd bins then 1 else searchsorted_left bins v)"

definition bin_labels :: "rat list \<Rightarrow> (rat \<times> rat) list" where
  "bin_labels bins = zip (butlast bins) (tl bins)"

definition bin_of_number :: "rat list \<Rightarrow> nat \<Rightarrow> (rat \<times> rat) option" where
  "bin_of_number bins i =
     (if i = 0 \<or> i = length bins then None else Some (bin_labels bins ! (i - 1)))"

definition bins_to_cuts ::
  "rat list \<Rightarrow> rat list \<Rightarrow> duplicates \<Rightarrow> error + ((rat \<times> rat) option list \<times> (rat \<times> rat) list)" where
  "bins_to_cuts x bins dup =
     (let unique_bins = unique bins;
          repeated = (length unique_bins < length bins \<and> length bins \<noteq> 2)
      in if repeated \<and> dup = Raise then Inl (ValueError ''Bin edges must be unique'')
         else
           let bins' = (if repeated then unique_bins else bins);
               ids = map (bin_number bins') x
           in Inr (map (bin_of_number bins') ids, bin_labels bins'))"

text \<open>
  \<^verbatim>\<open>pd.qcut(x, q, duplicates=...)\<close>: the edges are the quantiles \<open>0/q, 1/q, ..., q/q\<close> of
  \<open>x\<close>. On an empty series every quantile is NaN, so the edges are one repeated value and no
  bin is left (so pandas 1.x and 2.2 or later compute the quantiles of an empty series).
  The result is the bin of every value and the list of all bins (the categories).
\<close>

definition quantile_edges :: "rat list \<Rightarrow> nat \<Rightarrow> rat list" where
  "quantile_edges x q = map (\<lambda>k. quantile x k q) [0..<q + 1]"

definition qcut ::
  "rat list \<Rightarrow> nat \<Rightarrow> duplicates \<Rightarrow> error + ((rat \<times> rat) option list \<times> (rat \<times> rat) list)" where
  "qcut x q dup =
     (if x = []
      then (if dup = Raise \<and> q \<noteq> 0 \<and> q \<noteq> 1 then Inl (ValueError ''Bin edges must be unique'')
            else Inr ([], []))
      else bins_to_cuts x (quantile_edges x q) dup)"


text \<open>\<^verbatim>\<open>df[c] = values\<close> for the column \<open>size_bin\<close>: the table gets the column (at the
  end of the header when it is new) and every row its value.\<close>

definition setitem_size_bin :: "frame \<Rightarrow> (rat \<times> rat) option list \<Rightarrow> frame" where
  "setitem_size_bin df vs =
     \<lparr>columns = (if ''size_bin'' \<in> set (columns df) then columns df else columns df @ [''size_bin'']),
      rows = map (\<lambda>(r, v). r\<lparr>size_bin := v\<rparr>) (zip (rows df) vs)\<rparr>"

text \<open>\<^verbatim>\<open>groupby('size_bin')['win'].mean() * 100\<close>: \<open>size_bin\<close> is categorical, so there is
  one group per category, in category order, also for a category no row falls in (the
  default \<^verbatim>\<open>observed=False\<close> of pandas before 3.0).\<close>

definition groupby_size_bin :: "(rat \<times> rat) list \<Rightarrow> row list \<Rightarrow> ((rat \<times> rat) \<times> rat option) list" where
  "groupby_size_bin cats rs =
     map (\<lambda>c. (c, times100 (win_mean (filter (\<lambda>r. size_bin r = Some c) rs)))) cats"

subsection \<open>Largest rows\<close>

text \<open>
  \<^verbatim>\<open>df.nlargest(n, column)\<close> with \<^verbatim>\<open>keep='first'\<close>, as pandas computes it on the negated
  values: a table of at most \<open>n\<close> rows is sorted whole; otherwise the \<open>n\<close>-th smallest negated
  value is selected, the rows up to it are kept in table order and sorted by a stable sort,
  and the first \<open>n\<close> of them are returned.
\<close>

definition nlargest :: "nat \<Rightarrow> (row \<Rightarrow> rat) \<Rightarrow> row list \<Rightarrow> row list" where
  "nlargest n key xs =
     (if n = 0 then []
      else if length xs \<le> n then take n (sort_key (\<lambda>r. - key r) xs)
      else
        let kth_val = sort (map (\<lambda>r. - key r) xs) ! (n - 1);
            ns = filter (\<lambda>r. - key r \<le> kth_val) xs
        in take n (sort_key (\<lambda>r. - key r) ns))"

subsection \<open>Pivot table\<close>

text \<open>
  \<^verbatim>\<open>df.pivot_table(index='cluster', columns='classification', values='win', aggfunc='mean')\<close>:
  the rows with a missing cluster are dropped; the remaining rows are grouped by
  (cluster, classification) and averaged; the result has one line per cluster that occurs
  and one column per classification that occurs, both sorted, and a cell without rows is
  NaN.
\<close>

definition pivot_table :: "row list \<Rightarrow> (int \<times> (string \<times> rat option) list) list" where
  "pivot_table rs =
     (let obs = filter (\<lambda>r. cluster r \<noteq> None) rs;
          idx = sort (remdups (List.map_filter cluster obs));
          cols = sort (remdups (map classification obs))
      in map (\<lambda>c. (c, map (\<lambda>s. (s, win_mean (filter (\<lambda>r. cluster r = Some c \<and> classification r = s) obs))) cols)) idx)"

definition pivot_times100 ::
  "(int \<times> (string \<times> rat option) list) list \<Rightarrow> (int \<times> (string \<times> rat option) list) list" where
  "pivot_times100 p = map (\<lambda>(c, line). (c, map (\<lambda>(s, v). (s, times100 v)) line)) p"

text \<open>The cell of a pivot table at a line and a column; \<open>None\<close> when the table has no such
  line or column, or when the cell is NaN.\<close>

definition pivot_cell :: "(int \<times> (string \<times> rat option) list) list \<Rightarrow> int \<Rightarrow> string \<Rightarrow> rat option" where
  "pivot_cell p c s =
     (case map_of p c of None \<Rightarrow> None
      | Some line \<Rightarrow> (case map_of line s of None \<Rightarrow> None | Some v \<Rightarrow> v))"

subsection \<open>Group means of the numeric columns\<close>

text \<open>\<^verbatim>\<open>df.groupby('cluster').mean(numeric_only=True)\<close> on a trader-profile table: for every
  cluster, the mean of each numeric column the table has.\<close>

definition numeric_columns :: "(string \<times> (row \<Rightarrow> rat)) list" where
  "numeric_columns =
     [(''total_trades'', total_trades), (''win_rate'', win_rate), (''total_pnl'', total_pnl)]"

definition groupby_cluster_mean :: "frame \<Rightarrow> error + (int \<times> (string \<times> rat option) list) list" where
  "groupby_cluster_mean df =
     (if ''cluster'' \<notin> set (columns df) then Inl (KeyError ''cluster'')
      else Inr (map (\<lambda>(k, g).
                  (k, List.map_filter
                        (\<lambda>c. map_option (\<lambda>f. (c, mean (map f g))) (map_of numeric_columns c))
                        (columns df)))
                (groupby cluster (rows df))))"

section \<open>The dashboard script\<close>

text \<open>
  DataFrames are objects: the script's variables hold references to them, and line 116
  assigns a column to one of them in place. The objects live in a store, a list indexed by
  address; a new object is put at the end.
\<close>

definition alloc :: "frame list \<Rightarrow> frame \<Rightarrow> frame list \<times> nat" where
  "alloc h df = (h @ [df], length h)"

text \<open>
  The script's variables when it has run to its end. The four DataFrame variables
  \<open>merged\<close>, \<open>trader_features\<close>, \<open>filtered_merged\<close> and \<open>filtered_clusters\<close> are addresses
  into \<open>heap\<close>. The variables \<^verbatim>\<open>total_trades\<close>, \<^verbatim>\<open>total_pnl\<close> and \<^verbatim>\<open>win_rate\<close> carry the
  suffix \<open>_v\<close> here, their names being those of columns.
\<close>

record env =
  heap :: "frame list"
  merged :: nat
  trader_features :: nat
  filtered_merged :: nat
  filtered_clusters :: nat
  sentiment_options :: "string list"
  cluster_options :: "int option list"
  total_trades_v :: nat
  total_pnl_v :: rat
  overall_win_rate :: "rat option"
  win_rate_v :: "(string \<times> rat option) list"
  side_win :: "(string \<times> rat option) list"
  size_win :: "((rat \<times> rat) \<times> rat option) list"
  cluster_summary :: "(int \<times> (string \<times> rat option) list) list"
  top_traders :: frame
  heatmap_data :: "(int \<times> (string \<times> rat option) list) list"

text \<open>Lines 52-53: the two filtered tables, each a new object.\<close>

definition apply_filters ::
  "frame list \<Rightarrow> nat \<Rightarrow> nat \<Rightarrow> string list \<Rightarrow> int option list \<Rightarrow> error + (frame list \<times> nat \<times> nat)" where
  "apply_filters h m tf selected_sentiments selected_clusters =
     bind (getitem (h ! m) ''classification'' classification) (\<lambda>cls.
     bind (Inr (alloc h (getitem_mask (h ! m) (isin cls selected_sentiments)))) (\<lambda>(h1, fm).
     bind (getitem (h1 ! tf) ''cluster'' cluster) (\<lambda>cl.
     bind (Inr (alloc h1 (getitem_mask (h1 ! tf) (isin cl selected_clusters)))) (\<lambda>(h2, fc).
     Inr (h2, fm, fc)))))"

text \<open>Lines 61-63: the three KPIs.\<close>

definition kpis :: "frame \<Rightarrow> error + (nat \<times> rat \<times> rat option)" where
  "kpis fm =
     bind (getitem fm ''closed_pnl'' closed_pnl) (\<lambda>pnl.
     bind (getitem fm ''win'' win) (\<lambda>w.
     Inr (length (rows fm), sum_list pnl, times100 (mean (map of_bool w)))))"

text \<open>Lines 102 and 109: win rate by sentiment and by side.\<close>

definition groupby_win :: "frame \<Rightarrow> string \<Rightarrow> (row \<Rightarrow> string) \<Rightarrow> error + (string \<times> rat option) list" where
  "groupby_win df c f =
     (if c \<notin> set (columns df) then Inl (KeyError c)
      else if ''win'' \<notin> set (columns df) then Inl (KeyError ''win'')
      else Inr (groupby_win_rate (\<lambda>r. Some (f r)) (rows df)))"

text \<open>Lines 116-117: the size bins are written into the object \<open>filtered_merged\<close> refers
  to, then the win rate of every bin is computed from it.\<close>

definition size_vs_win :: "frame list \<Rightarrow> nat \<Rightarrow> error + (frame list \<times> ((rat \<times> rat) \<times> rat option) list)" where
  "size_vs_win h fm =
     bind (getitem (h ! fm) ''size_usd'' size_usd) (\<lambda>sizes.
     bind (qcut sizes 4 Drop) (\<lambda>(bins, cats).
     bind (Inr (h[fm := setitem_size_bin (h ! fm) bins])) (\<lambda>h'.
     bind (getitem (h' ! fm) ''win'' win) (\<lambda>_.
     Inr (h', groupby_size_bin cats (rows (h' ! fm)))))))"

text \<open>Lines 161-162: the five most profitable traders of every cluster, one cluster after
  the other, and the columns shown of them. The function applied to a group sees all the
  columns of the table, \<open>cluster\<close> among them (pandas before 3.0).\<close>

definition top_traders_per_cluster :: "frame \<Rightarrow> error + frame" where
  "top_traders_per_cluster tf =
     (if ''cluster'' \<notin> set (columns tf) then Inl (KeyError ''cluster'')
      else if ''total_pnl'' \<notin> set (columns tf) then Inl (KeyError ''total_pnl'')
      else
        let top = \<lparr>columns = columns tf,
                   rows = concat (map (\<lambda>(k, g). nlargest 5 total_pnl g) (groupby cluster (rows tf)))\<rparr>
        in bind (getitem_cols top [''account'', ''cluster'', ''total_trades'', ''win_rate'', ''total_pnl''])
             (\<lambda>_. Inr top))"

text \<open>Lines 168-170: the heatmap's table.\<close>

definition heatmap :: "frame \<Rightarrow> error + (int \<times> (string \<times> rat option) list) list" where
  "heatmap m =
     (case filter (\<lambda>c. c \<notin> set (columns m)) [''win'', ''cluster'', ''classification''] of
        c # _ \<Rightarrow> Inl (KeyError c)
      | [] \<Rightarrow> Inr (pivot_times100 (pivot_table (rows m))))"

text \<open>
  The whole script, from the two files and the two selections of the sidebar to the
  variables at its end. The calls that only draw (titles, charts, tables shown) are left
  out.
\<close>

definition dashboard :: "filesystem \<Rightarrow> string list \<Rightarrow> int option list \<Rightarrow> error + env" where
  "dashboard fs selected_sentiments selected_clusters =
     bind (load_data fs) (\<lambda>(m, tf).
     bind (Inr (alloc [] m)) (\<lambda>(h, merged).
     bind (Inr (alloc h tf)) (\<lambda>(h0, trader_features).
     bind (getitem (h0 ! merged) ''classification'' classification) (\<lambda>cls.
     bind (getitem (h0 ! trader_features) ''cluster'' cluster) (\<lambda>cl.
     bind (apply_filters h0 merged trader_features selected_sentiments selected_clusters)
       (\<lambda>(h2, filtered_merged, filtered_clusters).
     bind (kpis (h2 ! filtered_merged)) (\<lambda>(total_trades, total_pnl, overall_win_rate).
     bind (groupby_win (h2 ! filtered_merged) ''classification'' classification) (\<lambda>win_rate.
     bind (groupby_win (h2 ! filtered_merged) ''side'' side) (\<lambda>side_win.
     bind (size_vs_win h2 filtered_merged) (\<lambda>(h3, size_win).
     bind (groupby_cluster_mean (h3 ! filtered_clusters)) (\<lambda>summary.
     bind (top_traders_per_cluster (h3 ! trader_features)) (\<lambda>top_traders.
     bind (heatmap (h3 ! merged)) (\<lambda>heatmap_data.
     Inr \<lparr>heap = h3, merged = merged, trader_features = trader_features,
          filtered_merged = filtered_merged, filtered_clusters = filtered_clusters,
          sentiment_options = unique cls, cluster_options = unique cl,
          total_trades_v = total_trades, total_pnl_v = total_pnl,
          overall_win_rate = overall_win_rate, win_rate_v = win_rate, side_win = side_win,
          size_win = size_win, cluster_summary = summary, top_traders = top_traders,
          heatmap_data = heatmap_data\<rparr>)))))))))))))"

section \<open>Example tables\<close>

text \<open>A trade row and a trader-profile row from the cells of their own columns; the
  fields of the other table's columns are filled with blanks.\<close>

definition trade :: "string \<Rightarrow> string \<Rightarrow> rat \<Rightarrow> rat \<Rightarrow> bool \<Rightarrow> string \<Rightarrow> row" where
  "trade a sd sz pnl w cls =
     \<lparr>account = a, side = sd, size_usd = sz, closed_pnl = pnl, win = w, classification = cls,
      cluster = None, total_trades = 0, win_rate = 0, total_pnl = 0, size_bin = None\<rparr>"

definition profile :: "string \<Rightarrow> int \<Rightarrow> rat \<Rightarrow> rat \<Rightarrow> rat \<Rightarrow> row" where
  "profile a c n wr pnl =
     \<lparr>account = a, side = [], size_usd = 0, closed_pnl = 0, win = False, classification = [],
      cluster = Some c, total_trades = n, win_rate = wr, total_pnl = pnl, size_bin = None\<rparr>"

definition trade_columns :: "string list" where
  "trade_columns = [''account'', ''side'', ''size_usd'', ''closed_pnl'', ''win'', ''classification'']"

definition profile_columns :: "string list" where
  "profile_columns = [''account'', ''cluster'', ''total_trades'', ''win_rate'', ''total_pnl'']"

definition files :: "frame \<Rightarrow> frame \<Rightarrow> filesystem" where
  "files trades profiles path =
     (if path = ''final_merged_dataset.csv'' then Some trades
      else if path = ''trader_clusters.csv'' then Some profiles
      else None)"

text \<open>The example scenario of the specification: two trades, two traders.\<close>

definition example_trades :: frame where
  "example_trades =
     \<lparr>columns = trade_columns,
      rows = [trade ''A'' ''buy'' 50 100 True ''Fear'',
              trade ''B'' ''sell'' 80 (-20) False ''Greed'']\<rparr>"

definition example_profiles :: frame where
  "example_profiles =
     \<lparr>columns = profile_columns,
      rows = [profile ''A'' 0 10 60 500, profile ''B'' 1 5 30 (-200)]\<rparr>"

definition example_fs :: filesystem where
  "example_fs = files example_trades example_profiles"

text \<open>The same trades with one more, of an account \<open>C\<close> that has no trader profile.\<close>

definition orphan_trades :: frame where
  "orphan_trades =
     \<lparr>columns = trade_columns,
      rows = [trade ''A'' ''buy'' 50 100 True ''Fear'',
              trade ''C'' ''buy'' 10 5 True ''Fear'',
              trade ''B'' ''sell'' 80 (-20) False ''Greed'']\<rparr>"

text \<open>The table \<^verbatim>\<open>load_data\<close> makes of the example's trades.\<close>

definition example_merged :: frame where
  "example_merged =
     \<lparr>columns = trade_columns @ [''cluster''],
      rows = [(trade ''A'' ''buy'' 50 100 True ''Fear'')\<lparr>cluster := Some 0\<rparr>,
              (trade ''B'' ''sell'' 80 (-20) False ''Greed'')\<lparr>cluster := Some 1\<rparr>]\<rparr>"

text \<open>A trade file without the \<open>win\<close> column.\<close>

definition no_win_trades :: frame where
  "no_win_trades =
     \<lparr>columns = [''account'', ''side'', ''size_usd'', ''closed_pnl'', ''classification''],
      rows = rows example_trades\<rparr>"

text \<open>The variables of a run of the script that came to its end.\<close>

definition final_env :: "filesystem \<Rightarrow> string list \<Rightarrow> int option list \<Rightarrow> env" where
  "final_env fs selected_sentiments selected_clusters =
     projr (dashboard fs selected_sentiments selected_clusters)"

definition orphan_fs :: filesystem where
  "orphan_fs = files orphan_trades example_profiles"

definition orphan_merged :: frame where
  "orphan_merged =
     \<lparr>columns = trade_columns @ [''cluster''],
      rows = [(trade ''A'' ''buy'' 50 100 True ''Fear'')\<lparr>cluster := Some 0\<rparr>,
              (trade ''C'' ''buy'' 10 5 True ''Fear'')\<lparr>cluster := None\<rparr>,
              (trade ''B'' ''sell'' 80 (-20) False ''Greed'')\<lparr>cluster := Some 1\<rparr>]\<rparr>"

text \<open>Nine traders in two clusters, with equal profits among them; the example's trades
  belong to none of them.\<close>

definition nine_profiles :: frame where
  "nine_profiles =
     \<lparr>columns = profile_columns,
      rows = [profile ''T1'' 0 1 50 10, profile ''T2'' 0 1 50 30, profile ''T3'' 1 1 50 5,
              profile ''T4'' 0 1 50 30, profile ''T5'' 0 1 50 20, profile ''T6'' 0 1 50 10,
              profile ''T7'' 0 1 50 40, profile ''T8'' 1 1 50 7, profile ''T9'' 0 1 50 10]\<rparr>"

definition nine_fs :: filesystem where
  "nine_fs = files example_trades nine_profiles"


section \<open>Basic facts\<close>

named_theorems fixture_defs

declare trade_def [fixture_defs] profile_def [fixture_defs] trade_columns_def [fixture_defs]
  profile_columns_def [fixture_defs] files_def [fixture_defs] example_trades_def [fixture_defs]
  example_profiles_def [fixture_defs] example_fs_def [fixture_defs] orphan_trades_def [fixture_defs]
  example_merged_def [fixture_defs] no_win_trades_def [fixture_defs]
  orphan_fs_def [fixture_defs] orphan_merged_def [fixture_defs]
  nine_profiles_def [fixture_defs] nine_fs_def [fixture_defs]

lemma filter_zip_map: "map fst (filter snd (zip xs (map P xs))) = filter P xs"
  by (induction xs) auto

lemma bind_Inr_iff: "bind m f = Inr y \<longleftrightarrow> (\<exists>x. m = Inr x \<and> f x = Inr y)"
  by (cases m) (auto simp: bind_def)

lemma getitem_Inr_iff: "getitem df c f = Inr xs \<longleftrightarrow> c \<in> set (columns df) \<and> xs = map f (rows df)"
  by (auto simp: getitem_def)

lemma load_data_Inr_iff:
  "load_data fs = Inr (m, tf) \<longleftrightarrow>
     (\<exists>trades. fs ''final_merged_dataset.csv'' = Some trades \<and>
        fs ''trader_clusters.csv'' = Some tf \<and>
        ''account'' \<in> set (columns trades) \<and> ''account'' \<in> set (columns tf) \<and>
        ''cluster'' \<in> set (columns tf) \<and>
        m = \<lparr>columns =
               (if ''cluster'' \<in> set (columns trades)
                then map (\<lambda>c. if c = ''cluster'' then ''cluster_x'' else c) (columns trades)
                     @ [''cluster_y'']
                else columns trades @ [''cluster'']),
             rows = concat (map (merge_rows (''cluster'' \<in> set (columns trades)) (rows tf)) (rows trades))\<rparr>)"
  by (auto simp: load_data_def read_csv_def getitem_cols_def merge_left_def Let_def
      split: option.splits sum.splits)

subsection \<open>The join\<close>

lemma merge_rows_unique:
  assumes "distinct (map account rs)"
  shows "merge_rows False rs l =
           [l\<lparr>cluster := (case find (\<lambda>p. account p = account l) rs of None \<Rightarrow> None | Some p \<Rightarrow> cluster p)\<rparr>]"
  using assms
proof (induction rs)
  case Nil
  then show ?case by (simp add: merge_rows_def)
next
  case (Cons r rs)
  show ?case
  proof (cases "account r = account l")
    case True
    with Cons.prems have "filter (\<lambda>p. account p = account l) rs = []"
      by (auto simp: filter_empty_conv image_iff)
    with True show ?thesis by (simp add: merge_rows_def)
  next
    case False
    with Cons show ?thesis by (simp add: merge_rows_def)
  qed
qed


lemma find_account_Some:
  assumes "distinct (map account rs)" "p \<in> set rs" "account p = a"
  shows "find (\<lambda>q. account q = a) rs = Some p"
  using assms by (induction rs) (auto simp: image_iff)

lemma find_account_None:
  assumes "a \<notin> account ` set rs"
  shows "find (\<lambda>q. account q = a) rs = None"
  using assms by (induction rs) auto

subsection \<open>The sections of the script, when they succeed\<close>

lemma getitem_mask_isin:
  "getitem_mask df (isin (map f (rows df)) vals) =
     \<lparr>columns = columns df, rows = filter (\<lambda>r. f r \<in> set vals) (rows df)\<rparr>"
  using filter_zip_map [where P = "\<lambda>r. f r \<in> set vals" and xs = "rows df"]
  by (simp add: getitem_mask_def isin_def comp_def)

lemma apply_filters_Inr_iff:
  "apply_filters h m tf S C = Inr (h', fm, fc) \<longleftrightarrow>
     ''classification'' \<in> set (columns (h ! m)) \<and>
     ''cluster'' \<in> set (columns ((h @ [\<lparr>columns = columns (h ! m),
               rows = filter (\<lambda>r. classification r \<in> set S) (rows (h ! m))\<rparr>]) ! tf)) \<and>
     fm = length h \<and> fc = Suc (length h) \<and>
     h' = h @ [\<lparr>columns = columns (h ! m),
               rows = filter (\<lambda>r. classification r \<in> set S) (rows (h ! m))\<rparr>,
              \<lparr>columns = columns ((h @ [\<lparr>columns = columns (h ! m),
               rows = filter (\<lambda>r. classification r \<in> set S) (rows (h ! m))\<rparr>]) ! tf),
               rows = filter (\<lambda>r. cluster r \<in> set C) (rows ((h @ [\<lparr>columns = columns (h ! m),
               rows = filter (\<lambda>r. classification r \<in> set S) (rows (h ! m))\<rparr>]) ! tf))\<rparr>]"
  by (auto simp: apply_filters_def bind_Inr_iff getitem_Inr_iff alloc_def getitem_mask_isin)

lemma kpis_Inr_iff:
  "kpis fm = Inr (n, p, w) \<longleftrightarrow>
     ''closed_pnl'' \<in> set (columns fm) \<and> ''win'' \<in> set (columns fm) \<and>
     n = length (rows fm) \<and> p = sum_list (map closed_pnl (rows fm)) \<and>
     w = times100 (win_mean (rows fm))"
  by (auto simp: kpis_def bind_Inr_iff getitem_Inr_iff win_mean_def comp_def)

lemma groupby_win_Inr_iff:
  "groupby_win df c f = Inr g \<longleftrightarrow>
     c \<in> set (columns df) \<and> ''win'' \<in> set (columns df) \<and>
     g = groupby_win_rate (\<lambda>r. Some (f r)) (rows df)"
  by (auto simp: groupby_win_def)

lemma qcut_Drop_Inr: "\<exists>bins cats. qcut x q Drop = Inr (bins, cats)"
  by (simp add: qcut_def bins_to_cuts_def Let_def)

lemma size_vs_win_Inr_iff:
  "size_vs_win h fm = Inr (h', sw) \<longleftrightarrow>
     ''size_usd'' \<in> set (columns (h ! fm)) \<and>
     (\<exists>bins cats. qcut (map size_usd (rows (h ! fm))) 4 Drop = Inr (bins, cats) \<and>
        h' = h[fm := setitem_size_bin (h ! fm) bins] \<and>
        ''win'' \<in> set (columns (h' ! fm)) \<and>
        sw = groupby_size_bin cats (rows (h' ! fm)))"
  by (auto simp: size_vs_win_def bind_Inr_iff getitem_Inr_iff)

lemma groupby_cluster_mean_Inr: 
  "groupby_cluster_mean df = Inr x \<Longrightarrow> ''cluster'' \<in> set (columns df)"
  by (auto simp: groupby_cluster_mean_def split: if_splits)

lemma top_traders_per_cluster_Inr_iff:
  "top_traders_per_cluster tf = Inr tt \<longleftrightarrow>
     set [''account'', ''cluster'', ''total_trades'', ''win_rate'', ''total_pnl''] \<subseteq> set (columns tf) \<and>
     tt = \<lparr>columns = columns tf,
            rows = concat (map (\<lambda>(k, g). nlargest 5 total_pnl g) (groupby cluster (rows tf)))\<rparr>"
  by (auto simp: top_traders_per_cluster_def bind_Inr_iff getitem_cols_def Let_def
      split: list.splits if_splits)

lemma heatmap_Inr_iff:
  "heatmap m = Inr p \<longleftrightarrow>
     set [''win'', ''cluster'', ''classification''] \<subseteq> set (columns m) \<and>
     p = pivot_times100 (pivot_table (rows m))"
  by (auto simp: heatmap_def split: list.splits if_splits)


lemma dashboard_Inr_iff:
  "dashboard fs S C = Inr e \<longleftrightarrow>
     (\<exists>m tf bins cats summary.
        load_data fs = Inr (m, tf) \<and>
        set [''classification'', ''closed_pnl'', ''win'', ''side'', ''size_usd'', ''cluster'']
          \<subseteq> set (columns m) \<and>
        set [''account'', ''cluster'', ''total_trades'', ''win_rate'', ''total_pnl'']
          \<subseteq> set (columns tf) \<and>
        qcut (map size_usd (filter (\<lambda>r. classification r \<in> set S) (rows m))) 4 Drop
          = Inr (bins, cats) \<and>
        groupby_cluster_mean
          \<lparr>columns = columns tf, rows = filter (\<lambda>r. cluster r \<in> set C) (rows tf)\<rparr> = Inr summary \<and>
        e = \<lparr>heap = [m, tf,
                      setitem_size_bin
                        \<lparr>columns = columns m,
                         rows = filter (\<lambda>r. classification r \<in> set S) (rows m)\<rparr> bins,
                      \<lparr>columns = columns tf, rows = filter (\<lambda>r. cluster r \<in> set C) (rows tf)\<rparr>],
             merged = 0, trader_features = 1, filtered_merged = 2, filtered_clusters = 3,
             sentiment_options = unique (map classification (rows m)),
             cluster_options = unique (map cluster (rows tf)),
             total_trades_v = length (filter (\<lambda>r. classification r \<in> set S) (rows m)),
             total_pnl_v = sum_list (map closed_pnl (filter (\<lambda>r. classification r \<in> set S) (rows m))),
             overall_win_rate = times100 (win_mean (filter (\<lambda>r. classification r \<in> set S) (rows m))),
             win_rate_v = groupby_win_rate (\<lambda>r. Some (classification r))
                            (filter (\<lambda>r. classification r \<in> set S) (rows m)),
             side_win = groupby_win_rate (\<lambda>r. Some (side r))
                            (filter (\<lambda>r. classification r \<in> set S) (rows m)),
             size_win = groupby_size_bin cats
                          (rows (setitem_size_bin
                             \<lparr>columns = columns m,
                              rows = filter (\<lambda>r. classification r \<in> set S) (rows m)\<rparr> bins)),
             cluster_summary = summary,
             top_traders = \<lparr>columns = columns tf,
                 rows = concat (map (\<lambda>(k, g). nlargest 5 total_pnl g) (groupby cluster (rows tf)))\<rparr>,
             heatmap_data = pivot_times100 (pivot_table (rows m))\<rparr>)"
  (is "?lhs = ?rhs")
proof
  assume ?lhs
  then show ?rhs
    unfolding dashboard_def
    apply (clarsimp simp: bind_Inr_iff getitem_Inr_iff alloc_def apply_filters_Inr_iff kpis_Inr_iff
        groupby_win_Inr_iff size_vs_win_Inr_iff top_traders_per_cluster_Inr_iff heatmap_Inr_iff
        nth_append)
    done
next
  assume ?rhs
  then show ?lhs
    unfolding dashboard_def
    apply (clarsimp simp: bind_Inr_iff getitem_Inr_iff alloc_def apply_filters_Inr_iff kpis_Inr_iff
        groupby_win_Inr_iff size_vs_win_Inr_iff top_traders_per_cluster_Inr_iff heatmap_Inr_iff
        nth_append)
    apply (auto simp: setitem_size_bin_def)
    done
qed

subsection \<open>Rows and their size bins\<close>

lemma qcut_length: "qcut x q dup = Inr (bins, cats) \<Longrightarrow> length bins = length x"
  by (auto simp: qcut_def bins_to_cuts_def Let_def split: if_splits)

lemma erase_size_bin_zip:
  "length vs = length rs \<Longrightarrow>
   map (\<lambda>r. r\<lparr>size_bin := None\<rparr>) (map (\<lambda>(r, v). r\<lparr>size_bin := v\<rparr>) (zip rs vs))
     = map (\<lambda>r. r\<lparr>size_bin := None\<rparr>) rs"
  by (induction vs rs rule: list_induct2) auto

lemma classification_zip:
  "length vs = length rs \<Longrightarrow>
   map classification (map (\<lambda>(r, v). r\<lparr>size_bin := v\<rparr>) (zip rs vs)) = map classification rs"
  by (induction vs rs rule: list_induct2) auto

subsection \<open>Means of the win column\<close>

lemma sum_list_of_bool:
  "sum_list (map (\<lambda>r. of_bool (P r)) rs) = (of_nat (length (filter P rs)) :: rat)"
  by (induction rs) auto

lemma win_mean_eq:
  "win_mean rs =
     (if rs = [] then None else Some (of_nat (length (filter win rs)) / of_nat (length rs)))"
  by (simp add: win_mean_def mean_def sum_list_of_bool)

lemma win_fraction_bounds:
  assumes "rs \<noteq> []"
  shows "0 \<le> (of_nat (length (filter win rs)) :: rat) / of_nat (length rs)"
    and "(of_nat (length (filter win rs)) :: rat) / of_nat (length rs) \<le> 1"
proof -
  have "(of_nat (length (filter win rs)) :: rat) \<le> of_nat (length rs)"
    by (simp only: of_nat_le_iff length_filter_le)
  with assms show "(of_nat (length (filter win rs)) :: rat) / of_nat (length rs) \<le> 1"
    by (simp add: divide_le_eq_1)
  show "0 \<le> (of_nat (length (filter win rs)) :: rat) / of_nat (length rs)"
    by simp
qed

subsection \<open>Runs on the example tables\<close>

lemma load_example: "load_data example_fs = Inr (example_merged, example_profiles)"
  by code_simp

lemma ran_example_Fear: "dashboard example_fs [''Fear''] [Some 0] = Inr (final_env example_fs [''Fear''] [Some 0])"
  by code_simp

lemma ran_example_all:
  "dashboard example_fs [''Fear'', ''Greed''] [Some 0]
     = Inr (final_env example_fs [''Fear'', ''Greed''] [Some 0])"
  by code_simp

lemma ran_example_none: "dashboard example_fs [] [] = Inr (final_env example_fs [] [])"
  by code_simp



lemma load_nine:
  "load_data nine_fs
     = Inr (\<lparr>columns = trade_columns @ [''cluster''], rows = rows example_trades\<rparr>, nine_profiles)"
  by code_simp

lemma ran_nine: "dashboard nine_fs [''Fear''] [] = Inr (final_env nine_fs [''Fear''] [])"
  by code_simp

subsection \<open>The sections of the script, when they fail\<close>

lemma load_data_isl_iff:
  "isl (load_data fs) \<longleftrightarrow>
     (case fs ''final_merged_dataset.csv'' of None \<Rightarrow> True
      | Some trades \<Rightarrow>
          (case fs ''trader_clusters.csv'' of None \<Rightarrow> True
           | Some profiles \<Rightarrow>
               ''account'' \<notin> set (columns trades) \<or> ''account'' \<notin> set (columns profiles) \<or>
               ''cluster'' \<notin> set (columns profiles)))"
  by (auto simp: load_data_def read_csv_def getitem_cols_def merge_left_def Let_def
      split: option.splits sum.splits)

lemma bind_Inl_iff: "bind m f = Inl e \<longleftrightarrow> m = Inl e \<or> (\<exists>x. m = Inr x \<and> f x = Inl e)"
  by (cases m) (auto simp: bind_def)

lemma getitem_Inl_iff: "getitem df c f = Inl e \<longleftrightarrow> c \<notin> set (columns df) \<and> e = KeyError c"
  by (auto simp: getitem_def)

lemma qcut_Drop_not_Inl: "qcut x q Drop \<noteq> Inl e"
  by (simp add: qcut_def bins_to_cuts_def Let_def)

lemma apply_filters_Inl:
  assumes "apply_filters h m tf S C = Inl e" and "tf < length h"
  shows "\<exists>c. e = KeyError c \<and> (c \<notin> set (columns (h ! m)) \<or> c \<notin> set (columns (h ! tf)))"
  using assms
  by (auto simp: apply_filters_def bind_Inl_iff getitem_Inl_iff getitem_Inr_iff alloc_def nth_append)

lemma kpis_Inl: "kpis fm = Inl e \<Longrightarrow> \<exists>c. e = KeyError c \<and> c \<notin> set (columns fm)"
  by (auto simp: kpis_def bind_Inl_iff getitem_Inl_iff)

lemma groupby_win_Inl: "groupby_win df c f = Inl e \<Longrightarrow> \<exists>c. e = KeyError c \<and> c \<notin> set (columns df)"
  by (auto simp: groupby_win_def split: if_splits)

lemma size_vs_win_Inl:
  "size_vs_win h fm = Inl e \<Longrightarrow> fm < length h
     \<Longrightarrow> \<exists>c. e = KeyError c \<and> c \<notin> set (columns (h ! fm))"
  by (auto simp: size_vs_win_def bind_Inl_iff getitem_Inl_iff getitem_Inr_iff qcut_Drop_not_Inl
      setitem_size_bin_def split: if_splits)

lemma groupby_cluster_mean_Inl:
  "groupby_cluster_mean df = Inl e \<Longrightarrow> \<exists>c. e = KeyError c \<and> c \<notin> set (columns df)"
  by (auto simp: groupby_cluster_mean_def split: if_splits)

lemma top_traders_per_cluster_Inl:
  "top_traders_per_cluster tf = Inl e \<Longrightarrow> \<exists>c. e = KeyError c \<and> c \<notin> set (columns tf)"
  by (auto simp: top_traders_per_cluster_def bind_Inl_iff getitem_cols_def Let_def
      split: if_splits list.splits)

lemma heatmap_Inl: "heatmap m = Inl e \<Longrightarrow> \<exists>c. e = KeyError c \<and> c \<notin> set (columns m)"
  by (auto simp: heatmap_def split: if_splits list.splits)

lemma dashboard_Inl:
  assumes "dashboard fs S C = Inl err" and "load_data fs = Inr (m, tf)"
  shows "\<exists>c. err = KeyError c \<and> (c \<notin> set (columns m) \<or> c \<notin> set (columns tf))"
  using assms unfolding dashboard_def
  apply (clarsimp simp: bind_Inl_iff bind_Inr_iff alloc_def getitem_Inl_iff getitem_Inr_iff
      apply_filters_Inr_iff kpis_Inr_iff groupby_win_Inr_iff size_vs_win_Inr_iff
      top_traders_per_cluster_Inr_iff heatmap_Inr_iff nth_append)
  apply (elim disjE exE conjE)
  apply (auto dest!: apply_filters_Inl kpis_Inl groupby_win_Inl size_vs_win_Inl
      groupby_cluster_mean_Inl top_traders_per_cluster_Inl heatmap_Inl
      simp: setitem_size_bin_def split: if_splits)
  done

lemma groupby_Nil: "groupby key [] = []"
  by (simp add: groupby_def List.map_filter_simps)

subsection \<open>Cells of the pivot table\<close>

lemma map_of_tabulate:
  "map_of (map (\<lambda>k. (k, f k)) ks) k = (if k \<in> set ks then Some (f k) else None)"
  by (induction ks) auto


lemma pivot_times100_tabulate:
  "pivot_times100 (map (\<lambda>c. (c, map (\<lambda>s. (s, f c s)) cols)) idx)
     = map (\<lambda>c. (c, map (\<lambda>s. (s, times100 (f c s))) cols)) idx"
  by (simp add: pivot_times100_def comp_def)

lemma mem_map_filter_cluster:
  "c \<in> set (List.map_filter cluster rs) \<longleftrightarrow> (\<exists>r \<in> set rs. cluster r = Some c)"
  by (auto simp: List.map_filter_def image_iff)

lemma pivot_cell_tabulate:
  "pivot_cell (pivot_times100 (map (\<lambda>c. (c, map (\<lambda>s. (s, f c s)) cols)) idx)) c s
     = (if c \<in> set idx \<and> s \<in> set cols then times100 (f c s) else None)"
  by (simp add: pivot_cell_def pivot_times100_tabulate map_of_tabulate)

lemma pivot_cell_eq:
  "pivot_cell (pivot_times100 (pivot_table rs)) c s
     = times100 (win_mean (filter (\<lambda>r. cluster r = Some c \<and> classification r = s) rs))"
proof -
  define obs where "obs = filter (\<lambda>r. cluster r \<noteq> None) rs"
  let ?g = "filter (\<lambda>r. cluster r = Some c \<and> classification r = s) rs"
  have g: "filter (\<lambda>r. cluster r = Some c \<and> classification r = s) obs = ?g"
    unfolding obs_def by (auto intro: filter_cong)
  have cell: "pivot_cell (pivot_times100 (pivot_table rs)) c s
      = (if c \<in> set (List.map_filter cluster obs) \<and> s \<in> classification ` set obs
         then times100 (win_mean ?g) else None)"
    unfolding pivot_table_def Let_def obs_def [symmetric] pivot_cell_tabulate
    by (simp add: g)
  show ?thesis
  proof (cases "?g = []")
    case True
    then show ?thesis by (simp add: cell win_mean_eq times100_def)
  next
    case False
    then obtain r where "r \<in> set rs" "cluster r = Some c" "classification r = s"
      by (auto simp: filter_empty_conv)
    then have "r \<in> set obs" by (simp add: obs_def)
    with \<open>cluster r = Some c\<close> \<open>classification r = s\<close>
    have "c \<in> set (List.map_filter cluster obs)" "s \<in> classification ` set obs"
      by (auto simp: mem_map_filter_cluster)
    then show ?thesis by (simp add: cell)
  qed
qed

subsection \<open>The largest rows of a group\<close>

lemma map_insort_key: "map f (insort_key f x ys) = insort (f x) (map f ys)"
  by (induction ys) auto

lemma map_sort_key: "map f (sort_key f xs) = sort (map f xs)"
  by (induction xs) (auto simp: map_insort_key)

lemma filter_le_sorted:
  fixes f :: "'a \<Rightarrow> 'b::linorder"
  assumes "sorted (map f ys)"
  shows "filter (\<lambda>r. f r \<le> v) ys = takeWhile (\<lambda>r. f r \<le> v) ys"
  using assms
proof (induction ys)
  case Nil
  then show ?case by simp
next
  case (Cons y ys)
  show ?case
  proof (cases "f y \<le> v")
    case True
    with Cons show ?thesis by simp
  next
    case False
    with Cons.prems have "\<forall>r \<in> set ys. \<not> f r \<le> v"
      by auto
    with False show ?thesis by (simp add: filter_empty_conv)
  qed
qed

lemma take_takeWhile:
  assumes "n \<le> length ys" and "\<forall>i < n. P (ys ! i)"
  shows "take n (takeWhile P ys) = take n ys"
  using assms
proof (induction ys arbitrary: n)
  case Nil
  then show ?case by simp
next
  case (Cons y ys)
  show ?case
  proof (cases n)
    case 0
    then show ?thesis by simp
  next
    case (Suc k)
    with Cons.prems have "P y" and "k \<le> length ys" and "\<forall>i < k. P (ys ! i)"
      by auto
    with Cons.IH [of k] Suc show ?thesis by simp
  qed
qed

lemma nlargest_eq:
  "nlargest n key xs = take n (sort_key (\<lambda>r. - key r) xs)"
proof -
  define f where "f = (\<lambda>r. - key r)"
  define ys where "ys = sort_key f xs"
  have "take n (sort_key f (filter (\<lambda>r. f r \<le> sort (map f xs) ! (n - 1)) xs)) = take n ys"
    if n: "0 < n" "n < length xs"
  proof -
    define v where "v = sort (map f xs) ! (n - 1)"
    have len: "length ys = length xs" by (simp add: ys_def)
    have s: "sorted (map f ys)" unfolding ys_def by (rule sorted_sort_key)
    have "sort (map f xs) = map f ys"
      unfolding ys_def by (rule map_sort_key [symmetric])
    then have v: "v = map f ys ! (n - 1)" by (simp only: v_def)
    have "f (ys ! i) \<le> v" if "i < n" for i
    proof -
      from that n len have "i \<le> n - 1" "n - 1 < length (map f ys)" "i < length ys" by simp_all
      with sorted_nth_mono [OF s, of i "n - 1"] have "map f ys ! i \<le> v"
        unfolding v by blast
      with \<open>i < length ys\<close> show ?thesis by simp
    qed
    moreover from n len have "n \<le> length ys" by simp
    ultimately have "take n (takeWhile (\<lambda>r. f r \<le> v) ys) = take n ys"
      by (intro take_takeWhile) simp_all
    then have "take n (filter (\<lambda>r. f r \<le> v) ys) = take n ys"
      by (simp only: filter_le_sorted [OF s])
    then show ?thesis
      unfolding ys_def v_def by (simp only: filter_sort)
  qed
  then show ?thesis
    unfolding ys_def f_def by (auto simp: nlargest_def Let_def)
qed


lemma concat_map_single_key:
  assumes "distinct ks"
  shows "concat (map (\<lambda>k. if k = c then g else []) ks) = (if c \<in> set ks then g else [])"
  using assms by (induction ks) auto

lemma filter_cluster_concat:
  assumes "distinct ks"
    and "\<And>k. \<forall>r \<in> set (G k). cluster r = Some k"
    and "c \<notin> set ks \<Longrightarrow> G c = []"
  shows "filter (\<lambda>r. cluster r = Some c) (concat (map G ks)) = G c"
proof -
  have "filter (\<lambda>r. cluster r = Some c) (G k) = (if k = c then G c else [])" for k
    using assms(2) [of k] by (auto simp: filter_empty_conv filter_id_conv)
  then have "filter (\<lambda>r. cluster r = Some c) (concat (map G ks))
      = concat (map (\<lambda>k. if k = c then G c else []) ks)"
    by (simp add: filter_concat comp_def)
  also have "\<dots> = G c"
    using assms(3) by (simp add: concat_map_single_key [OF assms(1)])
  finally show ?thesis .
qed

lemma sorted_descending:
  fixes f :: "'a \<Rightarrow> rat"
  shows "sorted (map (\<lambda>r. - f r) zs) \<longleftrightarrow> sorted_wrt (\<lambda>a b. f b \<le> f a) zs"
  by (simp add: sorted_wrt_map)

lemma top_traders_rows:
  "concat (map (\<lambda>(k, g). nlargest 5 total_pnl g) (groupby cluster rs))
     = concat (map (\<lambda>c. take 5 (sort_key (\<lambda>r. - total_pnl r) (filter (\<lambda>r. cluster r = Some c) rs)))
         (sort (remdups (List.map_filter cluster rs))))"
  by (simp add: groupby_def nlargest_eq comp_def)

lemma top_traders_of_cluster:
  "filter (\<lambda>r. cluster r = Some c)
     (concat (map (\<lambda>c. take 5 (sort_key (\<lambda>r. - total_pnl r) (filter (\<lambda>r. cluster r = Some c) rs)))
         (sort (remdups (List.map_filter cluster rs)))))
   = take 5 (sort_key (\<lambda>r. - total_pnl r) (filter (\<lambda>r. cluster r = Some c) rs))"
proof (rule filter_cluster_concat)
  show "distinct (sort (remdups (List.map_filter cluster rs)))" by simp
next
  fix k
  have "set (take 5 (sort_key (\<lambda>r. - total_pnl r) (filter (\<lambda>r. cluster r = Some k) rs)))
      \<subseteq> set (sort_key (\<lambda>r. - total_pnl r) (filter (\<lambda>r. cluster r = Some k) rs))"
    by (rule set_take_subset)
  then show "\<forall>r \<in> set (take 5 (sort_key (\<lambda>r. - total_pnl r) (filter (\<lambda>r. cluster r = Some k) rs))).
           cluster r = Some k"
    by auto
next
  assume "c \<notin> set (sort (remdups (List.map_filter cluster rs)))"
  then have "filter (\<lambda>r. cluster r = Some c) rs = []"
    by (auto simp: mem_map_filter_cluster filter_empty_conv)
  then show "take 5 (sort_key (\<lambda>r. - total_pnl r) (filter (\<lambda>r. cluster r = Some c) rs)) = []"
    by simp
qed

subsection \<open>Distinct values and quantiles\<close>





lemma unique_distinct: "distinct xs \<Longrightarrow> unique xs = xs"
proof -
  assume "distinct xs"
  then have "distinct (rev xs)" by simp
  then have "remdups (rev xs) = rev xs" by (rule distinct_remdups_id)
  then show ?thesis by (simp only: unique_def rev_rev_ident)
qed



















subsection \<open>The bin of a value\<close>
















section \<open>Filtered trades\<close>

text \<open>
  Claim C1. For every pair of files the script loads and every selection \<open>S\<close> of sentiments
  and \<open>C\<close> of clusters, the rows of \<^verbatim>\<open>filtered_merged\<close> are exactly the rows of the joined
  trade table whose classification is in \<open>S\<close>, in table order (the object differs from them
  only in the \<open>size_bin\<close> cell line 116 writes into it); every row has its classification
  in \<open>S\<close>; the count of trades is the number of these rows; and the cluster selection has no
  effect on the table: another selection \<open>C'\<close> gives the same one.
\<close>

theorem filtered_trades_by_sentiment_only:
  assumes "dashboard fs S C = Inr e" and "load_data fs = Inr (m, tf)"
  shows "map (\<lambda>r. r\<lparr>size_bin := None\<rparr>) (rows (heap e ! filtered_merged e))
           = map (\<lambda>r. r\<lparr>size_bin := None\<rparr>) (filter (\<lambda>r. classification r \<in> set S) (rows m)) \<and>
         (\<forall>r \<in> set (rows (heap e ! filtered_merged e)). classification r \<in> set S) \<and>
         total_trades_v e = length (filter (\<lambda>r. classification r \<in> set S) (rows m)) \<and>
         (\<forall>C' e'. dashboard fs S C' = Inr e'
            \<longrightarrow> heap e' ! filtered_merged e' = heap e ! filtered_merged e)"
proof -
  let ?ft = "filter (\<lambda>r. classification r \<in> set S) (rows m)"
  from assms obtain bins cats where
    q: "qcut (map size_usd ?ft) 4 Drop = Inr (bins, cats)"
    and fm: "heap e ! filtered_merged e = setitem_size_bin \<lparr>columns = columns m, rows = ?ft\<rparr> bins"
    and n: "total_trades_v e = length ?ft"
    by (auto simp: dashboard_Inr_iff)
  from q have len: "length bins = length ?ft"
    by (auto dest: qcut_length)
  have rws: "rows (heap e ! filtered_merged e) = map (\<lambda>(r, v). r\<lparr>size_bin := v\<rparr>) (zip ?ft bins)"
    by (simp add: fm setitem_size_bin_def)
  have 1: "map (\<lambda>r. r\<lparr>size_bin := None\<rparr>) (rows (heap e ! filtered_merged e))
           = map (\<lambda>r. r\<lparr>size_bin := None\<rparr>) ?ft"
    unfolding rws using len by (rule erase_size_bin_zip)
  have "map classification (rows (heap e ! filtered_merged e)) = map classification ?ft"
    unfolding rws using len by (rule classification_zip)
  then have "set (map classification (rows (heap e ! filtered_merged e))) \<subseteq> set S"
    by auto
  then have 2: "\<forall>r \<in> set (rows (heap e ! filtered_merged e)). classification r \<in> set S"
    by auto
  have 3: "heap e' ! filtered_merged e' = heap e ! filtered_merged e"
    if "dashboard fs S C' = Inr e'" for C' e'
    using that assms(2) q fm by (auto simp: dashboard_Inr_iff)
  from 1 2 3 n show ?thesis by blast
qed

theorem filtered_trades_by_sentiment_only_witness:
  "dashboard example_fs [''Fear''] [Some 0] = Inr (final_env example_fs [''Fear''] [Some 0]) \<and>
   load_data example_fs = Inr (example_merged, example_profiles) \<and>
   map (\<lambda>r. r\<lparr>size_bin := None\<rparr>) (rows (heap (final_env example_fs [''Fear''] [Some 0]) ! 2))
     = [(trade ''A'' ''buy'' 50 100 True ''Fear'')\<lparr>cluster := Some 0\<rparr>] \<and>
   filtered_merged (final_env example_fs [''Fear''] [Some 0]) = 2 \<and>
   total_trades_v (final_env example_fs [''Fear''] [Some 0]) = 1"
proof -
  have f: "filter (\<lambda>r. classification r \<in> set [''Fear'']) (rows example_merged)
             = [(trade ''A'' ''buy'' 50 100 True ''Fear'')\<lparr>cluster := Some 0\<rparr>]"
    by (simp add: fixture_defs)
  have a: "filtered_merged (final_env example_fs [''Fear''] [Some 0]) = 2"
    by code_simp
  from filtered_trades_by_sentiment_only [OF ran_example_Fear load_example]
  have "map (\<lambda>r. r\<lparr>size_bin := None\<rparr>)
          (rows (heap (final_env example_fs [''Fear''] [Some 0])
                   ! filtered_merged (final_env example_fs [''Fear''] [Some 0])))
        = map (\<lambda>r. r\<lparr>size_bin := None\<rparr>)
            (filter (\<lambda>r. classification r \<in> set [''Fear'']) (rows example_merged))"
    and "total_trades_v (final_env example_fs [''Fear''] [Some 0])
        = length (filter (\<lambda>r. classification r \<in> set [''Fear'']) (rows example_merged))"
    by blast+
  then have "map (\<lambda>r. r\<lparr>size_bin := None\<rparr>) (rows (heap (final_env example_fs [''Fear''] [Some 0]) ! 2))
        = [(trade ''A'' ''buy'' 50 100 True ''Fear'')\<lparr>cluster := Some 0\<rparr>]"
    and "total_trades_v (final_env example_fs [''Fear''] [Some 0]) = 1"
    unfolding f a by (simp_all add: trade_def)
  with a ran_example_Fear load_example show ?thesis by blast
qed

section \<open>What the loader checks\<close>

text \<open>
  Claim C2, as the code has it. \<^verbatim>\<open>load_data\<close> fails exactly when one of the two files is
  missing or unreadable, or the column \<open>account\<close> is absent from either table, or the column
  \<open>cluster\<close> is absent from the trader profiles. It does not look for the columns
  \<open>classification\<close>, \<open>closed_pnl\<close>, \<open>win\<close> and \<open>size_usd\<close>: when one of them is absent from
  the table it returns, the load succeeds and the script fails later, with a KeyError, at
  an aggregation reading a column that is not there.
\<close>

theorem loader_checks_only_join_columns:
  "(isl (load_data fs) \<longleftrightarrow>
     (case fs ''final_merged_dataset.csv'' of None \<Rightarrow> True
      | Some trades \<Rightarrow>
          (case fs ''trader_clusters.csv'' of None \<Rightarrow> True
           | Some profiles \<Rightarrow>
               ''account'' \<notin> set (columns trades) \<or> ''account'' \<notin> set (columns profiles) \<or>
               ''cluster'' \<notin> set (columns profiles)))) \<and>
   (\<forall>m tf c S C.
      load_data fs = Inr (m, tf) \<and>
      c \<in> {''classification'', ''closed_pnl'', ''win'', ''size_usd''} \<and> c \<notin> set (columns m)
      \<longrightarrow> (\<exists>c'. dashboard fs S C = Inl (KeyError c')))"
proof -
  have "\<exists>c'. dashboard fs S C = Inl (KeyError c')"
    if l: "load_data fs = Inr (m, tf)"
      and c: "c \<in> {''classification'', ''closed_pnl'', ''win'', ''size_usd''}" "c \<notin> set (columns m)"
    for m tf c S C
  proof (cases "dashboard fs S C")
    case (Inl err)
    with dashboard_Inl [OF Inl l] show ?thesis by blast
  next
    case (Inr e)
    with l c have False by (auto simp: dashboard_Inr_iff)
    then show ?thesis ..
  qed
  with load_data_isl_iff [of fs] show ?thesis by blast
qed

theorem loader_checks_only_join_columns_witness:
  "isl (load_data (\<lambda>path. None)) \<and>
   load_data (files no_win_trades example_profiles)
     = Inr (\<lparr>columns = columns no_win_trades @ [''cluster''], rows = rows example_merged\<rparr>,
            example_profiles) \<and>
   (\<exists>c'. dashboard (files no_win_trades example_profiles) [''Fear''] [Some 0] = Inl (KeyError c'))"
proof -
  have l: "load_data (files no_win_trades example_profiles)
     = Inr (\<lparr>columns = columns no_win_trades @ [''cluster''], rows = rows example_merged\<rparr>,
            example_profiles)"
    by code_simp
  have c: "''win'' \<notin> set (columns \<lparr>columns = columns no_win_trades @ [''cluster''],
                                     rows = rows example_merged\<rparr>)"
    by (simp add: fixture_defs)
  from loader_checks_only_join_columns [of "\<lambda>path. None"]
  have "isl (load_data (\<lambda>path. None))" by simp
  moreover from loader_checks_only_join_columns [of "files no_win_trades example_profiles"] l c
  have "\<exists>c'. dashboard (files no_win_trades example_profiles) [''Fear''] [Some 0] = Inl (KeyError c')"
    by blast
  ultimately show ?thesis using l by blast
qed

text \<open>
  Claim C2 as stated fails: on a trade file without the \<open>win\<close> column \<^verbatim>\<open>load_data\<close>
  returns its two tables, and the KeyError is raised by the KPI computation of line 63.
\<close>

theorem load_data_accepts_missing_win_column:
  "\<not> isl (load_data (files no_win_trades example_profiles)) \<and>
   ''win'' \<notin> set (columns no_win_trades) \<and>
   dashboard (files no_win_trades example_profiles) [''Fear''] [Some 0] = Inl (KeyError ''win'')"
  by code_simp

section \<open>Overall win rate\<close>

text \<open>
  Claim C3. For every selection, \<^verbatim>\<open>overall_win_rate\<close> is NaN when no trade passes the
  sentiment filter, and otherwise the number of winning filtered trades divided by the
  number of filtered trades, times 100: the mean of the \<open>win\<close> column times 100, a value
  from 0 to 100.
\<close>

theorem overall_win_rate_mean:
  assumes "dashboard fs S C = Inr e" and "load_data fs = Inr (m, tf)"
  shows "(filter (\<lambda>r. classification r \<in> set S) (rows m) = [] \<longrightarrow> overall_win_rate e = None) \<and>
         (filter (\<lambda>r. classification r \<in> set S) (rows m) \<noteq> [] \<longrightarrow>
            (\<exists>v. overall_win_rate e = Some v \<and> 0 \<le> v \<and> v \<le> 100 \<and>
               v = of_nat (length (filter win (filter (\<lambda>r. classification r \<in> set S) (rows m))))
                   / of_nat (length (filter (\<lambda>r. classification r \<in> set S) (rows m))) * 100))"
proof -
  let ?ft = "filter (\<lambda>r. classification r \<in> set S) (rows m)"
  from assms have w: "overall_win_rate e = times100 (win_mean ?ft)"
    by (auto simp: dashboard_Inr_iff)
  show ?thesis
  proof (cases "?ft = []")
    case True
    then show ?thesis by (simp add: w times100_def win_mean_eq)
  next
    case False
    define v where "v = (of_nat (length (filter win ?ft)) :: rat) / of_nat (length ?ft)"
    from win_fraction_bounds [OF False] have "0 \<le> v" "v \<le> 1"
      by (simp_all only: v_def)
    then have "0 \<le> v * 100" "v * 100 \<le> 100" by simp_all
    moreover from False have "overall_win_rate e = Some (v * 100)"
      by (simp only: w win_mean_eq v_def times100_def if_False option.map)
    ultimately show ?thesis
      using False unfolding v_def by blast
  qed
qed

theorem overall_win_rate_mean_witness:
  "dashboard example_fs [''Fear'', ''Greed''] [Some 0]
     = Inr (final_env example_fs [''Fear'', ''Greed''] [Some 0]) \<and>
   dashboard example_fs [] [] = Inr (final_env example_fs [] []) \<and>
   load_data example_fs = Inr (example_merged, example_profiles) \<and>
   overall_win_rate (final_env example_fs [''Fear'', ''Greed''] [Some 0]) = Some 50 \<and>
   overall_win_rate (final_env example_fs [] []) = None"
proof -
  have f: "filter (\<lambda>r. classification r \<in> set [''Fear'', ''Greed'']) (rows example_merged)
             = rows example_merged"
    by (simp add: fixture_defs)
  have g: "filter win (rows example_merged) = [(trade ''A'' ''buy'' 50 100 True ''Fear'')\<lparr>cluster := Some 0\<rparr>]"
    by (simp add: fixture_defs)
  have r: "rows example_merged \<noteq> []" "length (rows example_merged) = 2"
    by (simp_all add: fixture_defs)
  from overall_win_rate_mean [OF ran_example_all load_example]
  have "overall_win_rate (final_env example_fs [''Fear'', ''Greed''] [Some 0]) = Some 50"
    unfolding f g using r by auto
  moreover from overall_win_rate_mean [OF ran_example_none load_example]
  have "overall_win_rate (final_env example_fs [] []) = None"
    by simp
  ultimately show ?thesis
    using ran_example_all ran_example_none load_example by blast
qed

section \<open>No aggregation raises\<close>

text \<open>
  Claim C4. When the two tables are loaded and have the columns the script reads, the
  script runs to its end for every selection \<open>S\<close> and \<open>C\<close>, whatever the number of
  distinct quantile edges of the trade sizes. With no sentiment selected the filtered
  table is empty, the count and the sum are 0, the overall win rate is NaN, and the
  grouped win rates and the size bins are empty; with no cluster selected the filtered
  profiles and the cluster summary are empty.
\<close>

theorem aggregation_never_raises:
  assumes "load_data fs = Inr (m, tf)"
    and "set [''classification'', ''closed_pnl'', ''win'', ''side'', ''size_usd'', ''cluster'']
           \<subseteq> set (columns m)"
    and "set [''account'', ''cluster'', ''total_trades'', ''win_rate'', ''total_pnl'']
           \<subseteq> set (columns tf)"
  shows "\<exists>e. dashboard fs S C = Inr e \<and>
           (S = [] \<longrightarrow> rows (heap e ! filtered_merged e) = [] \<and> total_trades_v e = 0 \<and>
              total_pnl_v e = 0 \<and> overall_win_rate e = None \<and> win_rate_v e = [] \<and>
              side_win e = [] \<and> size_win e = []) \<and>
           (C = [] \<longrightarrow> rows (heap e ! filtered_clusters e) = [] \<and> cluster_summary e = [])"
proof -
  let ?ft = "filter (\<lambda>r. classification r \<in> set S) (rows m)"
  let ?fc = "\<lparr>columns = columns tf, rows = filter (\<lambda>r. cluster r \<in> set C) (rows tf)\<rparr>"
  obtain bins cats where q: "qcut (map size_usd ?ft) 4 Drop = Inr (bins, cats)"
    using qcut_Drop_Inr by blast
  from assms(3) obtain summary where g: "groupby_cluster_mean ?fc = Inr summary"
    by (auto simp: groupby_cluster_mean_def)
  from assms q g obtain e where e: "dashboard fs S C = Inr e"
    by (auto simp: dashboard_Inr_iff)
  have "rows (heap e ! filtered_merged e) = [] \<and> total_trades_v e = 0 \<and>
        total_pnl_v e = 0 \<and> overall_win_rate e = None \<and> win_rate_v e = [] \<and>
        side_win e = [] \<and> size_win e = []" if "S = []"
    using e assms(1) that
    by (auto simp: dashboard_Inr_iff qcut_def setitem_size_bin_def groupby_size_bin_def
        groupby_win_rate_def groupby_Nil win_mean_eq times100_def)
  moreover have "rows (heap e ! filtered_clusters e) = [] \<and> cluster_summary e = []" if "C = []"
    using e assms(1) that
    by (auto simp: dashboard_Inr_iff groupby_cluster_mean_def groupby_Nil)
  ultimately show ?thesis using e by blast
qed

theorem aggregation_never_raises_witness:
  "load_data example_fs = Inr (example_merged, example_profiles) \<and>
   set [''classification'', ''closed_pnl'', ''win'', ''side'', ''size_usd'', ''cluster'']
     \<subseteq> set (columns example_merged) \<and>
   set [''account'', ''cluster'', ''total_trades'', ''win_rate'', ''total_pnl'']
     \<subseteq> set (columns example_profiles) \<and>
   (\<exists>e. dashboard example_fs [] [] = Inr e \<and>
        rows (heap e ! filtered_merged e) = [] \<and> total_trades_v e = 0 \<and> total_pnl_v e = 0 \<and>
        overall_win_rate e = None \<and> win_rate_v e = [] \<and> side_win e = [] \<and> size_win e = [] \<and>
        rows (heap e ! filtered_clusters e) = [] \<and> cluster_summary e = []) \<and>
   (\<exists>e. dashboard example_fs [''Fear''] [Some 0] = Inr e)"
proof -
  have m: "set [''classification'', ''closed_pnl'', ''win'', ''side'', ''size_usd'', ''cluster'']
     \<subseteq> set (columns example_merged)"
    by (simp add: fixture_defs)
  have p: "set [''account'', ''cluster'', ''total_trades'', ''win_rate'', ''total_pnl'']
     \<subseteq> set (columns example_profiles)"
    by (simp add: fixture_defs)
  from aggregation_never_raises [OF load_example m p, of "[]" "[]"]
  have "\<exists>e. dashboard example_fs [] [] = Inr e \<and>
        rows (heap e ! filtered_merged e) = [] \<and> total_trades_v e = 0 \<and> total_pnl_v e = 0 \<and>
        overall_win_rate e = None \<and> win_rate_v e = [] \<and> side_win e = [] \<and> size_win e = [] \<and>
        rows (heap e ! filtered_clusters e) = [] \<and> cluster_summary e = []"
    by simp
  moreover from aggregation_never_raises [OF load_example m p, of "[''Fear'']" "[Some 0]"]
  have "\<exists>e. dashboard example_fs [''Fear''] [Some 0] = Inr e"
    by blast
  ultimately show ?thesis using load_example m p by blast
qed

section \<open>Trade-size bins\<close>




section \<open>Top traders per cluster\<close>

text \<open>
  Claim C6. For every cluster \<open>c\<close>, the rows of \<^verbatim>\<open>top_traders\<close> of that cluster are the
  first five (all of them when the cluster has fewer) of the cluster's rows of the whole
  trader-profile table sorted by a stable sort on descending \<open>total_pnl\<close>: the five largest
  profits, in descending order, rows of equal profit in table order. The table is these
  blocks one after the other, the clusters ascending, and it is the same for every
  selection of sentiments and clusters.
\<close>

theorem top_traders_five_largest_per_cluster:
  assumes "dashboard fs S C = Inr e" and "load_data fs = Inr (m, tf)"
  shows "(\<forall>c. filter (\<lambda>r. cluster r = Some c) (rows (top_traders e))
               = take 5 (sort_key (\<lambda>r. - total_pnl r) (filter (\<lambda>r. cluster r = Some c) (rows tf))) \<and>
              sorted_wrt (\<lambda>a b. total_pnl b \<le> total_pnl a)
                (filter (\<lambda>r. cluster r = Some c) (rows (top_traders e))) \<and>
              length (filter (\<lambda>r. cluster r = Some c) (rows (top_traders e)))
               = min 5 (length (filter (\<lambda>r. cluster r = Some c) (rows tf)))) \<and>
         rows (top_traders e)
           = concat (map (\<lambda>c. filter (\<lambda>r. cluster r = Some c) (rows (top_traders e)))
               (sort (remdups (List.map_filter cluster (rows tf))))) \<and>
         (\<forall>S' C' e'. dashboard fs S' C' = Inr e' \<longrightarrow> top_traders e' = top_traders e)"
proof -
  let ?top = "\<lambda>c. take 5 (sort_key (\<lambda>r. - total_pnl r) (filter (\<lambda>r. cluster r = Some c) (rows tf)))"
  let ?ks = "sort (remdups (List.map_filter cluster (rows tf)))"
  from assms have tt: "top_traders e = \<lparr>columns = columns tf,
      rows = concat (map (\<lambda>(k, g). nlargest 5 total_pnl g) (groupby cluster (rows tf)))\<rparr>"
    by (auto simp: dashboard_Inr_iff)
  then have r: "rows (top_traders e) = concat (map ?top ?ks)"
    by (simp add: top_traders_rows)
  have f: "filter (\<lambda>r. cluster r = Some c) (rows (top_traders e)) = ?top c" for c
    unfolding r by (rule top_traders_of_cluster)
  have "sorted (map (\<lambda>r. - total_pnl r) (sort_key (\<lambda>r. - total_pnl r) g))" for g :: "row list"
    by (rule sorted_sort_key)
  then have "sorted (map (\<lambda>r. - total_pnl r) (take 5 (sort_key (\<lambda>r. - total_pnl r) g)))"
    for g :: "row list"
    by (simp only: take_map [symmetric] sorted_wrt_take)
  then have s: "sorted_wrt (\<lambda>a b. total_pnl b \<le> total_pnl a) (?top c)" for c
    by (simp only: sorted_descending)
  have l: "length (?top c) = min 5 (length (filter (\<lambda>r. cluster r = Some c) (rows tf)))" for c
    by simp
  have A: "filter (\<lambda>r. cluster r = Some c) (rows (top_traders e))
               = take 5 (sort_key (\<lambda>r. - total_pnl r) (filter (\<lambda>r. cluster r = Some c) (rows tf))) \<and>
              sorted_wrt (\<lambda>a b. total_pnl b \<le> total_pnl a)
                (filter (\<lambda>r. cluster r = Some c) (rows (top_traders e))) \<and>
              length (filter (\<lambda>r. cluster r = Some c) (rows (top_traders e)))
               = min 5 (length (filter (\<lambda>r. cluster r = Some c) (rows tf)))" for c
    unfolding f using s [of c] l [of c] by blast
  have B: "rows (top_traders e)
           = concat (map (\<lambda>c. filter (\<lambda>r. cluster r = Some c) (rows (top_traders e))) ?ks)"
    unfolding f by (rule r)
  have D: "top_traders e' = top_traders e" if "dashboard fs S' C' = Inr e'" for S' C' e'
    using that assms(2) tt by (auto simp: dashboard_Inr_iff)
  from A B D show ?thesis by blast
qed

theorem top_traders_five_largest_per_cluster_witness:
  "dashboard nine_fs [''Fear''] [] = Inr (final_env nine_fs [''Fear''] []) \<and>
   load_data nine_fs
     = Inr (\<lparr>columns = trade_columns @ [''cluster''], rows = rows example_trades\<rparr>, nine_profiles) \<and>
   map account (filter (\<lambda>r. cluster r = Some 0) (rows (top_traders (final_env nine_fs [''Fear''] []))))
     = [''T7'', ''T2'', ''T4'', ''T5'', ''T1''] \<and>
   map account (filter (\<lambda>r. cluster r = Some 1) (rows (top_traders (final_env nine_fs [''Fear''] []))))
     = [''T8'', ''T3''] \<and>
   map account (rows (top_traders (final_env nine_fs [''Fear''] [])))
     = [''T7'', ''T2'', ''T4'', ''T5'', ''T1'', ''T8'', ''T3'']"
proof -
  note t = top_traders_five_largest_per_cluster [OF ran_nine load_nine]
  let ?E = "final_env nine_fs [''Fear''] []"
  have f: "filter (\<lambda>r. cluster r = Some c) (rows (top_traders ?E))
      = take 5 (sort_key (\<lambda>r. - total_pnl r) (filter (\<lambda>r. cluster r = Some c) (rows nine_profiles)))"
    for c
    using t by blast
  have r: "rows (top_traders ?E)
      = concat (map (\<lambda>c. filter (\<lambda>r. cluster r = Some c) (rows (top_traders ?E)))
               (sort (remdups (List.map_filter cluster (rows nine_profiles)))))"
    using t by blast
  have ks: "sort (remdups (List.map_filter cluster (rows nine_profiles))) = [0, 1]"
    by code_simp
  have 0: "map account (take 5 (sort_key (\<lambda>r. - total_pnl r)
              (filter (\<lambda>r. cluster r = Some 0) (rows nine_profiles))))
           = [''T7'', ''T2'', ''T4'', ''T5'', ''T1'']"
    by code_simp
  have 1: "map account (take 5 (sort_key (\<lambda>r. - total_pnl r)
              (filter (\<lambda>r. cluster r = Some 1) (rows nine_profiles))))
           = [''T8'', ''T3'']"
    by code_simp
  have "map account (rows (top_traders ?E))
      = map account (filter (\<lambda>r. cluster r = Some 0) (rows (top_traders ?E)))
        @ map account (filter (\<lambda>r. cluster r = Some 1) (rows (top_traders ?E)))"
    by (subst r) (simp add: ks)
  then have "map account (rows (top_traders ?E))
      = [''T7'', ''T2'', ''T4'', ''T5'', ''T1'', ''T8'', ''T3'']"
    by (simp only: f 0 1 append.simps)
  moreover have "map account (filter (\<lambda>r. cluster r = Some 0) (rows (top_traders ?E)))
     = [''T7'', ''T2'', ''T4'', ''T5'', ''T1'']"
    by (simp only: f 0)
  moreover have "map account (filter (\<lambda>r. cluster r = Some 1) (rows (top_traders ?E)))
     = [''T8'', ''T3'']"
    by (simp only: f 1)
  ultimately show ?thesis using ran_nine load_nine by blast
qed

section \<open>The heatmap\<close>

text \<open>
  Claim C7. For every cluster \<open>c\<close> and classification \<open>s\<close>, the heatmap's cell at \<open>(c, s)\<close> is
  the number of winning rows divided by the number of rows, times 100, over exactly the
  rows of the whole joined table (no filter applied) whose cluster is \<open>c\<close> and whose
  classification is \<open>s\<close>; when the table has no such row the cell is undefined, not 0. The
  heatmap is the same for every selection of sentiments and clusters.
\<close>

theorem heatmap_cells_from_unfiltered_rows:
  assumes "dashboard fs S C = Inr e" and "load_data fs = Inr (m, tf)"
  shows "(\<forall>c s. pivot_cell (heatmap_data e) c s =
            (if filter (\<lambda>r. cluster r = Some c \<and> classification r = s) (rows m) = [] then None
             else Some (of_nat (length (filter win
                          (filter (\<lambda>r. cluster r = Some c \<and> classification r = s) (rows m))))
                        / of_nat (length
                          (filter (\<lambda>r. cluster r = Some c \<and> classification r = s) (rows m)))
                        * 100))) \<and>
         (\<forall>S' C' e'. dashboard fs S' C' = Inr e' \<longrightarrow> heatmap_data e' = heatmap_data e)"
proof -
  from assms have h: "heatmap_data e = pivot_times100 (pivot_table (rows m))"
    by (auto simp: dashboard_Inr_iff)
  have "heatmap_data e' = heatmap_data e" if "dashboard fs S' C' = Inr e'" for S' C' e'
    using that assms(2) h by (auto simp: dashboard_Inr_iff)
  moreover have "pivot_cell (heatmap_data e) c s =
            (if filter (\<lambda>r. cluster r = Some c \<and> classification r = s) (rows m) = [] then None
             else Some (of_nat (length (filter win
                          (filter (\<lambda>r. cluster r = Some c \<and> classification r = s) (rows m))))
                        / of_nat (length
                          (filter (\<lambda>r. cluster r = Some c \<and> classification r = s) (rows m)))
                        * 100))" for c s
    unfolding h pivot_cell_eq win_mean_eq by (simp add: times100_def del: filter_filter)
  ultimately show ?thesis by blast
qed

theorem heatmap_cells_from_unfiltered_rows_witness:
  "dashboard example_fs [''Fear''] [Some 0] = Inr (final_env example_fs [''Fear''] [Some 0]) \<and>
   load_data example_fs = Inr (example_merged, example_profiles) \<and>
   pivot_cell (heatmap_data (final_env example_fs [''Fear''] [Some 0])) 0 ''Fear'' = Some 100 \<and>
   pivot_cell (heatmap_data (final_env example_fs [''Fear''] [Some 0])) 1 ''Greed'' = Some 0 \<and>
   pivot_cell (heatmap_data (final_env example_fs [''Fear''] [Some 0])) 0 ''Greed'' = None \<and>
   heatmap_data (final_env example_fs [''Fear'', ''Greed''] [Some 0])
     = heatmap_data (final_env example_fs [''Fear''] [Some 0])"
proof -
  note t = heatmap_cells_from_unfiltered_rows [OF ran_example_Fear load_example]
  have f: "filter (\<lambda>r. cluster r = Some 0 \<and> classification r = ''Fear'') (rows example_merged)
             = [(trade ''A'' ''buy'' 50 100 True ''Fear'')\<lparr>cluster := Some 0\<rparr>]"
    "filter (\<lambda>r. cluster r = Some 1 \<and> classification r = ''Greed'') (rows example_merged)
             = [(trade ''B'' ''sell'' 80 (-20) False ''Greed'')\<lparr>cluster := Some 1\<rparr>]"
    "filter (\<lambda>r. cluster r = Some 0 \<and> classification r = ''Greed'') (rows example_merged) = []"
    by (simp_all add: fixture_defs)
  from t have c: "pivot_cell (heatmap_data (final_env example_fs [''Fear''] [Some 0])) c s =
            (if filter (\<lambda>r. cluster r = Some c \<and> classification r = s) (rows example_merged) = []
             then None
             else Some (of_nat (length (filter win
                          (filter (\<lambda>r. cluster r = Some c \<and> classification r = s) (rows example_merged))))
                        / of_nat (length
                          (filter (\<lambda>r. cluster r = Some c \<and> classification r = s) (rows example_merged)))
                        * 100))" for c s
    by blast
  have "pivot_cell (heatmap_data (final_env example_fs [''Fear''] [Some 0])) 0 ''Fear'' = Some 100"
    unfolding c f by (simp add: trade_def)
  moreover have "pivot_cell (heatmap_data (final_env example_fs [''Fear''] [Some 0])) 1 ''Greed'' = Some 0"
    unfolding c f by (simp add: trade_def)
  moreover have "pivot_cell (heatmap_data (final_env example_fs [''Fear''] [Some 0])) 0 ''Greed'' = None"
    unfolding c f by simp
  moreover from t ran_example_all
  have "heatmap_data (final_env example_fs [''Fear'', ''Greed''] [Some 0])
     = heatmap_data (final_env example_fs [''Fear''] [Some 0])"
    by blast
  ultimately show ?thesis using ran_example_Fear load_example by blast
qed

section \<open>The loader's join\<close>

text \<open>
  Claim C8. When the trade file has no \<open>cluster\<close> column of its own and \<open>account\<close> is a
  unique key of the trader profiles, the table \<^verbatim>\<open>load_data\<close> returns has exactly one row
  per trade, in the order of the file: the trade itself with a \<open>cluster\<close> cell, which is the
  cluster of the profile owning the trade's account, and missing when no profile has that
  account. No trade is dropped.
\<close>

theorem left_join_keeps_every_trade:
  assumes "load_data fs = Inr (m, tf)"
    and "fs ''final_merged_dataset.csv'' = Some trades"
    and "''cluster'' \<notin> set (columns trades)"
    and "distinct (map account (rows tf))"
  shows "length (rows m) = length (rows trades) \<and>
         ''cluster'' \<in> set (columns m) \<and>
         (\<forall>i < length (rows trades).
            rows m ! i = (rows trades ! i)\<lparr>cluster := cluster (rows m ! i)\<rparr> \<and>
            (\<forall>p \<in> set (rows tf). account p = account (rows trades ! i)
                 \<longrightarrow> cluster (rows m ! i) = cluster p) \<and>
            (account (rows trades ! i) \<notin> account ` set (rows tf)
                 \<longrightarrow> cluster (rows m ! i) = None))"
proof -
  let ?look = "\<lambda>t. case find (\<lambda>p. account p = account t) (rows tf) of
                       None \<Rightarrow> None | Some p \<Rightarrow> cluster p"
  from assms(1,2,3) have cols: "''cluster'' \<in> set (columns m)"
    and "rows m = concat (map (merge_rows False (rows tf)) (rows trades))"
    by (auto simp: load_data_Inr_iff)
  moreover have "merge_rows False (rows tf) = (\<lambda>t. [t\<lparr>cluster := ?look t\<rparr>])"
    by (rule ext) (rule merge_rows_unique [OF assms(4)])
  ultimately have rows_m: "rows m = map (\<lambda>t. t\<lparr>cluster := ?look t\<rparr>) (rows trades)"
    by (simp add: concat_map_singleton)
  have "rows m ! i = (rows trades ! i)\<lparr>cluster := cluster (rows m ! i)\<rparr> \<and>
        (\<forall>p \<in> set (rows tf). account p = account (rows trades ! i)
             \<longrightarrow> cluster (rows m ! i) = cluster p) \<and>
        (account (rows trades ! i) \<notin> account ` set (rows tf)
             \<longrightarrow> cluster (rows m ! i) = None)"
    if "i < length (rows trades)" for i
    using that
    by (auto simp: rows_m find_account_Some [OF assms(4)] find_account_None)
  with cols rows_m show ?thesis by simp
qed

theorem left_join_keeps_every_trade_witness:
  "load_data (files orphan_trades example_profiles) =
     Inr (\<lparr>columns = trade_columns @ [''cluster''],
           rows = [(trade ''A'' ''buy'' 50 100 True ''Fear'')\<lparr>cluster := Some 0\<rparr>,
                   (trade ''C'' ''buy'' 10 5 True ''Fear'')\<lparr>cluster := None\<rparr>,
                   (trade ''B'' ''sell'' 80 (-20) False ''Greed'')\<lparr>cluster := Some 1\<rparr>]\<rparr>,
          example_profiles) \<and>
   files orphan_trades example_profiles ''final_merged_dataset.csv'' = Some orphan_trades \<and>
   ''cluster'' \<notin> set (columns orphan_trades) \<and>
   distinct (map account (rows example_profiles)) \<and>
   length (rows (fst (projr (load_data (files orphan_trades example_profiles))))) = 3"
proof -
  let ?m = "\<lparr>columns = trade_columns @ [''cluster''],
           rows = [(trade ''A'' ''buy'' 50 100 True ''Fear'')\<lparr>cluster := Some 0\<rparr>,
                   (trade ''C'' ''buy'' 10 5 True ''Fear'')\<lparr>cluster := None\<rparr>,
                   (trade ''B'' ''sell'' 80 (-20) False ''Greed'')\<lparr>cluster := Some 1\<rparr>]\<rparr>"
  have 1: "load_data (files orphan_trades example_profiles) = Inr (?m, example_profiles)"
    by (simp add: load_data_def read_csv_def getitem_cols_def merge_left_def merge_rows_def
        fixture_defs)
  have 2: "files orphan_trades example_profiles ''final_merged_dataset.csv'' = Some orphan_trades"
    by (simp add: files_def)
  have 3: "''cluster'' \<notin> set (columns orphan_trades)"
    by (simp add: fixture_defs)
  have 4: "distinct (map account (rows example_profiles))"
    by (simp add: fixture_defs)
  from left_join_keeps_every_trade [OF 1 2 3 4]
  have "length (rows ?m) = length (rows orphan_trades)" by blast
  with 1 2 3 4 show ?thesis by (simp add: fixture_defs)
qed

section \<open>The source tables stay as loaded\<close>

text \<open>
  Claim C9. At the end of the script, for every selection, the objects the variables
  \<^verbatim>\<open>merged\<close> and \<^verbatim>\<open>trader_features\<close> refer to are the two tables \<^verbatim>\<open>load_data\<close> returned,
  header and rows unchanged. The two filtered tables are other objects, so the column
  assignment of line 116 to \<^verbatim>\<open>filtered_merged\<close> does not reach them.
\<close>

theorem source_tables_never_mutated:
  assumes "dashboard fs S C = Inr e" and "load_data fs = Inr (m, tf)"
  shows "heap e ! merged e = m \<and> heap e ! trader_features e = tf \<and>
         filtered_merged e \<notin> {merged e, trader_features e} \<and>
         filtered_clusters e \<notin> {merged e, trader_features e}"
  using assms by (auto simp: dashboard_Inr_iff)

theorem source_tables_never_mutated_witness:
  "dashboard example_fs [''Fear'', ''Greed''] [Some 0]
     = Inr (final_env example_fs [''Fear'', ''Greed''] [Some 0]) \<and>
   load_data example_fs = Inr (example_merged, example_profiles) \<and>
   heap (final_env example_fs [''Fear'', ''Greed''] [Some 0]) ! 0 = example_merged \<and>
   heap (final_env example_fs [''Fear'', ''Greed''] [Some 0]) ! 1 = example_profiles \<and>
   columns (heap (final_env example_fs [''Fear'', ''Greed''] [Some 0]) ! 2)
     = columns example_merged @ [''size_bin'']"
proof -
  have a: "merged (final_env example_fs [''Fear'', ''Greed''] [Some 0]) = 0"
    "trader_features (final_env example_fs [''Fear'', ''Greed''] [Some 0]) = 1"
    by code_simp+
  have c: "columns (heap (final_env example_fs [''Fear'', ''Greed''] [Some 0]) ! 2)
     = columns example_merged @ [''size_bin'']"
    by code_simp
  from source_tables_never_mutated [OF ran_example_all load_example]
  have "heap (final_env example_fs [''Fear'', ''Greed''] [Some 0]) ! 0 = example_merged"
    and "heap (final_env example_fs [''Fear'', ''Greed''] [Some 0]) ! 1 = example_profiles"
    unfolding a by blast+
  with c ran_example_all load_example show ?thesis by blast
qed

section \<open>Trades without a trader profile\<close>



end
